theory Spec2Isabelle
  imports Complex_Main "HOL-Library.List_Lexorder" "HOL-Library.Char_ord"
begin

section \<open>Model definitions (src/lib/model-persistence.ts, interface ModelDefinition)\<close>

text \<open>
  The field type is the union \<^verbatim>\<open>'string' | 'number' | 'boolean' | 'date' | 'text'\<close>.
  An optional property of the interface is an \<open>option\<close>: \<open>None\<close> is the absent key
  (\<^verbatim>\<open>undefined\<close>), which \<^verbatim>\<open>JSON.stringify\<close> drops and \<^verbatim>\<open>JSON.parse\<close> does not bring back.
  \<open>rbac\<close> is a \<^verbatim>\<open>Record<string, string[]>\<close>: the own keys of the object with their
  action lists. What a read of \<open>rbac\<close> finds beyond its own keys, the members that
  every object inherits, is part of the permission check further down.

  The interface declares neither \<^verbatim>\<open>createdAt\<close> nor \<^verbatim>\<open>updatedAt\<close>, but the
  document that \<^verbatim>\<open>saveModel\<close> writes carries both, \<^verbatim>\<open>loadModel\<close> returns the parsed
  document as a \<^verbatim>\<open>ModelDefinition\<close>, and \<^verbatim>\<open>updateModel\<close> hands such an object back to
  \<^verbatim>\<open>saveModel\<close>. The record has them as optional fields. A timestamp is the string
  \<^verbatim>\<open>new Date().toISOString()\<close> returned, and ISO-8601 strings of that form are ordered
  in time by the lexicographic order on strings.
\<close>

datatype field_type = TString | TNumber | TBoolean | TDate | TText

record FieldDefinition =
  field_name :: string
  field_type :: field_type
  required :: "bool option"
  default_value :: "string option"
  unique :: "bool option"
  relation :: "string option"

type_synonym timestamp = string

record ModelDefinition =
  name :: string
  tableName :: "string option"
  model_fields :: "FieldDefinition list"
  ownerField :: "string option"
  rbac :: "(string \<times> string list) list"
  createdAt :: "timestamp option"
  updatedAt :: "timestamp option"

text \<open>
  \<^verbatim>\<open>Partial<ModelDefinition>\<close>, the second argument of \<^verbatim>\<open>updateModel\<close>: every key may
  be absent (\<open>None\<close>). For an optional property, \<open>Some None\<close> is the key present with
  the value \<^verbatim>\<open>undefined\<close>, which the spread copies over the old value.
\<close>

record ModelUpdates =
  upd_name :: "string option"
  upd_tableName :: "string option option"
  upd_fields :: "FieldDefinition list option"
  upd_ownerField :: "string option option"
  upd_rbac :: "(string \<times> string list) list option"

section \<open>The models directory\<close>

text \<open>
  A file of the directory is represented by what \<^verbatim>\<open>JSON.parse\<close> makes of its text:
  \<open>Serialized m\<close> is the text \<^verbatim>\<open>JSON.stringify(m, null, 2)\<close> of a definition \<open>m\<close>,
  \<open>Malformed t\<close> is a text \<open>t\<close> on which \<^verbatim>\<open>JSON.parse\<close> throws a SyntaxError.
  A text that parses is taken to have the declared return type of \<^verbatim>\<open>loadModel\<close>.

  The file system is the directory \<^verbatim>\<open>modelsDir\<close> alone: \<open>None\<close> while it does not exist,
  and otherwise the map from the names of its files to their contents. It holds files
  only, no subdirectory, and paths follow the POSIX rules, where \<open>/\<close> is the one
  separator. \<^verbatim>\<open>path.join(modelsDir, fileName)\<close> is the entry \<open>fileName\<close> of the directory
  when \<open>fileName\<close> is a name a directory entry can have (\<open>entry_name\<close>: no separator, no
  NUL, at most 255 bytes). For any other \<open>fileName\<close> the operation fails: a NUL is
  refused by Node before any system call (a TypeError), a name longer than the limit
  is \<open>ENAMETOOLONG\<close>, and a separator leads through a subdirectory that does not exist
  (\<open>ENOENT\<close>) or through a file (\<open>ENOTDIR\<close>). That is exact as long as no segment of the
  path is empty, \<open>.\<close> or \<open>..\<close>; a path with such a segment, which \<^verbatim>\<open>path.join\<close>
  rewrites, possibly to a place outside the directory, is not followed by this model.
  Reading a missing file and writing into a missing directory throw \<open>ENOENT\<close>. The
  failures of the device (no space, no permission) are not modelled.
\<close>

datatype document = Serialized ModelDefinition | Malformed string

type_synonym file_system = "(string \<rightharpoonup> document) option"

datatype exn = ENOENT | ENOTDIR | ENAMETOOLONG | SyntaxError | TypeError | DatabaseError

definition entry_name :: "string \<Rightarrow> bool" where
  "entry_name fileName =
     (CHR ''/'' \<notin> set fileName \<and> CHR 0x00 \<notin> set fileName \<and> length fileName \<le> 255)"

text \<open>
  The error of an operation on a path that is no entry of the directory \<open>files\<close>; the
  first segment of the path is what precedes its first separator.
\<close>

definition path_error :: "(string \<rightharpoonup> document) \<Rightarrow> string \<Rightarrow> exn" where
  "path_error files fileName =
     (if CHR 0x00 \<in> set fileName then TypeError
      else if CHR ''/'' \<in> set fileName
      then (if files (takeWhile (\<lambda>c. c \<noteq> CHR ''/'') fileName) = None then ENOENT else ENOTDIR)
      else ENAMETOOLONG)"

definition fs_access :: "file_system \<Rightarrow> exn + unit" where
  "fs_access fs = (case fs of None \<Rightarrow> Inl ENOENT | Some files \<Rightarrow> Inr ())"

definition fs_mkdir :: "file_system \<Rightarrow> file_system" where
  "fs_mkdir fs = (case fs of None \<Rightarrow> Some Map.empty | Some files \<Rightarrow> Some files)"

definition fs_readFile :: "file_system \<Rightarrow> string \<Rightarrow> exn + document" where
  "fs_readFile fs fileName =
     (case fs of
        None \<Rightarrow> (if CHR 0x00 \<in> set fileName then Inl TypeError else Inl ENOENT)
      | Some files \<Rightarrow>
          if entry_name fileName
          then (case files fileName of None \<Rightarrow> Inl ENOENT | Some content \<Rightarrow> Inr content)
          else Inl (path_error files fileName))"

definition fs_writeFile :: "file_system \<Rightarrow> string \<Rightarrow> document \<Rightarrow> (exn + unit) \<times> file_system" where
  "fs_writeFile fs fileName content =
     (case fs of
        None \<Rightarrow> (if CHR 0x00 \<in> set fileName then (Inl TypeError, fs) else (Inl ENOENT, fs))
      | Some files \<Rightarrow>
          if entry_name fileName
          then (Inr (), Some (files(fileName \<mapsto> content)))
          else (Inl (path_error files fileName), fs))"

definition JSON_stringify :: "ModelDefinition \<Rightarrow> document" where
  "JSON_stringify m = Serialized m"

definition JSON_parse :: "document \<Rightarrow> exn + ModelDefinition" where
  "JSON_parse content = (case content of Serialized m \<Rightarrow> Inr m | Malformed t \<Rightarrow> Inl SyntaxError)"

section \<open>ModelPersistence (src/lib/model-persistence.ts)\<close>

text \<open>
  \<^verbatim>\<open>ensureModelsDirectory\<close>: \<^verbatim>\<open>try { await fs.access(dir) } catch { await fs.mkdir(dir, {recursive: true}) }\<close>.
\<close>

definition ensureModelsDirectory :: "file_system \<Rightarrow> file_system" where
  "ensureModelsDirectory fs = (case fs_access fs of Inl e \<Rightarrow> fs_mkdir fs | Inr u \<Rightarrow> fs)"

text \<open>
  \<^verbatim>\<open>saveModel\<close> reads the clock twice, for \<^verbatim>\<open>createdAt\<close> and for \<^verbatim>\<open>updatedAt\<close>; the two
  readings are the arguments \<open>now1\<close> and \<open>now2\<close>. The result is the exception thrown or
  \<open>()\<close>, with the file system left behind.
\<close>

definition saveModel ::
  "timestamp \<Rightarrow> timestamp \<Rightarrow> ModelDefinition \<Rightarrow> file_system \<Rightarrow> (exn + unit) \<times> file_system" where
  "saveModel now1 now2 model fs =
     (let fs1 = ensureModelsDirectory fs;
          fileName = name model @ ''.json'';
          modelWithMetadata = model\<lparr>createdAt := Some now1, updatedAt := Some now2\<rparr>
      in fs_writeFile fs1 fileName (JSON_stringify modelWithMetadata))"

text \<open>\<^verbatim>\<open>loadModel\<close>: every exception of the read and of the parse is caught and gives \<^verbatim>\<open>null\<close>.\<close>

definition loadModel :: "file_system \<Rightarrow> string \<Rightarrow> ModelDefinition option" where
  "loadModel fs modelName =
     (let fileName = modelName @ ''.json''
      in case fs_readFile fs fileName of
           Inl e \<Rightarrow> None
         | Inr content \<Rightarrow> (case JSON_parse content of Inl e \<Rightarrow> None | Inr m \<Rightarrow> Some m))"

text \<open>The object spread \<^verbatim>\<open>{ ...existingModel, ...updates }\<close>: a key of \<open>updates\<close> wins.\<close>

definition spread_updates :: "ModelDefinition \<Rightarrow> ModelUpdates \<Rightarrow> ModelDefinition" where
  "spread_updates existingModel updates =
     existingModel
       \<lparr> name := (case upd_name updates of None \<Rightarrow> name existingModel | Some v \<Rightarrow> v),
         tableName := (case upd_tableName updates of None \<Rightarrow> tableName existingModel | Some v \<Rightarrow> v),
         model_fields := (case upd_fields updates of None \<Rightarrow> model_fields existingModel | Some v \<Rightarrow> v),
         ownerField := (case upd_ownerField updates of None \<Rightarrow> ownerField existingModel | Some v \<Rightarrow> v),
         rbac := (case upd_rbac updates of None \<Rightarrow> rbac existingModel | Some v \<Rightarrow> v) \<rparr>"

text \<open>
  \<^verbatim>\<open>updateModel\<close> reads the clock once itself (\<open>now0\<close>) and twice more inside
  \<^verbatim>\<open>saveModel\<close>. The whole body is inside \<^verbatim>\<open>try { ... } catch { return false }\<close>.
\<close>

definition updateModel ::
  "timestamp \<Rightarrow> timestamp \<Rightarrow> timestamp \<Rightarrow> file_system \<Rightarrow> string \<Rightarrow> ModelUpdates \<Rightarrow> bool \<times> file_system" where
  "updateModel now0 now1 now2 fs modelName updates =
     (case loadModel fs modelName of
        None \<Rightarrow> (False, fs)
      | Some existingModel \<Rightarrow>
          (let updatedModel = (spread_updates existingModel updates)\<lparr>updatedAt := Some now0\<rparr>
           in case saveModel now1 now2 updatedModel fs of
                (Inl e, fs') \<Rightarrow> (False, fs')
              | (Inr u, fs') \<Rightarrow> (True, fs')))"

section \<open>JSON values and JavaScript property access\<close>

text \<open>
  A request body is whatever \<^verbatim>\<open>request.json()\<close> parsed: any JSON value. A JSON number
  is the double the parser produced, kept as its rational value (\<open>-0\<close> and \<open>0\<close> are both
  falsy and strictly equal, as the one rational \<open>0\<close>; a literal beyond the range of the
  doubles, which parses to an infinity, has no value in this type).
  An object is the list of its own properties in insertion order (JavaScript lists
  integer-like keys first; no statement below depends on the order of keys).
\<close>

datatype json =
    JNull
  | JBool bool
  | JNum rat
  | JStr string
  | JArr "json list"
  | JObj "(string \<times> json) list"

text \<open>
  JavaScript truthiness of an own property, as \<^verbatim>\<open>!x\<close>, \<^verbatim>\<open>x || y\<close> and \<^verbatim>\<open>if (x)\<close> use it;
  \<open>None\<close> is \<^verbatim>\<open>undefined\<close>.
\<close>

fun truthy :: "json option \<Rightarrow> bool" where
  "truthy None = False"
| "truthy (Some JNull) = False"
| "truthy (Some (JBool b)) = b"
| "truthy (Some (JNum q)) = (q \<noteq> 0)"
| "truthy (Some (JStr s)) = (s \<noteq> [])"
| "truthy (Some (JArr xs)) = True"
| "truthy (Some (JObj ps)) = True"

definition truthy_str :: "string option \<Rightarrow> bool" where
  "truthy_str s = (case s of None \<Rightarrow> False | Some v \<Rightarrow> v \<noteq> [])"

definition truthy_bool :: "bool option \<Rightarrow> bool" where
  "truthy_bool b = (case b of None \<Rightarrow> False | Some v \<Rightarrow> v)"

text \<open>\<^verbatim>\<open>s || alt\<close> for an optional string \<open>s\<close>.\<close>

definition or_else :: "string option \<Rightarrow> string \<Rightarrow> string" where
  "or_else s alt = (case s of None \<Rightarrow> alt | Some v \<Rightarrow> if v \<noteq> [] then v else alt)"

text \<open>
  The decimal digits of a number, as a template literal prints it. \<open>digit_char\<close> is
  only applied to a number below ten.
\<close>

definition digit_char :: "nat \<Rightarrow> char" where
  "digit_char d = ''0123456789'' ! d"

fun show_nat :: "nat \<Rightarrow> string" where
  "show_nat n =
     (if n < 10 then [digit_char n]
      else show_nat (n div 10) @ [digit_char (n mod 10)])"

declare show_nat.simps [simp del]

text \<open>
  The own enumerable properties of a value, which an object spread \<^verbatim>\<open>{ ...v }\<close>
  copies: those of an object; the indices of an array or of a string; none for
  \<^verbatim>\<open>null\<close>, a boolean or a number.
\<close>

fun own_props :: "json \<Rightarrow> (string \<times> json) list" where
  "own_props (JObj ps) = ps"
| "own_props (JArr xs) = zip (map show_nat [0..<length xs]) xs"
| "own_props (JStr s) = zip (map show_nat [0..<length s]) (map (\<lambda>c. JStr [c]) s)"
| "own_props JNull = []"
| "own_props (JBool b) = []"
| "own_props (JNum q) = []"

text \<open>
  \<open>member_of v k\<close> is the own property \<open>k\<close> of a value \<open>v\<close>, \<open>None\<close> when \<open>v\<close> has no
  own property of that name.
\<close>

fun member_of :: "json \<Rightarrow> string \<Rightarrow> json option" where
  "member_of (JObj ps) k = map_of ps k"
| "member_of (JArr xs) k =
     (if k = ''length'' then Some (JNum (of_nat (length xs))) else map_of (own_props (JArr xs)) k)"
| "member_of (JStr s) k =
     (if k = ''length'' then Some (JNum (of_nat (length s))) else map_of (own_props (JStr s)) k)"
| "member_of JNull k = None"
| "member_of (JBool b) k = None"
| "member_of (JNum q) k = None"

text \<open>
  A property read \<^verbatim>\<open>v[k]\<close> with a computed key looks for \<open>k\<close> among the own properties
  of \<open>v\<close> and then along its prototype chain: \<^verbatim>\<open>Object.prototype\<close> for an object, and
  before it \<^verbatim>\<open>Array.prototype\<close>, \<^verbatim>\<open>String.prototype\<close>, \<^verbatim>\<open>Number.prototype\<close> or
  \<^verbatim>\<open>Boolean.prototype\<close> for a value of that kind. Which names the built-in prototypes
  carry depends on the version of the runtime, so they are a parameter: the lists of the
  names of their members. An inherited member is a function (or, for \<^verbatim>\<open>__proto__\<close>,
  the prototype itself): the value \<open>Native\<close>, which is truthy, is no JSON value (and so
  strictly unequal to every string), and has no method \<^verbatim>\<open>includes\<close>.
\<close>

record js_runtime =
  Object_prototype :: "string list"
  Array_prototype :: "string list"
  String_prototype :: "string list"
  Number_prototype :: "string list"
  Boolean_prototype :: "string list"

datatype js_value = Undefined | Json json | Native

definition inherited :: "js_runtime \<Rightarrow> json \<Rightarrow> string \<Rightarrow> bool" where
  "inherited rt v k =
     (k \<in> set (Object_prototype rt)
      \<or> (case v of
            JArr xs \<Rightarrow> k \<in> set (Array_prototype rt)
          | JStr s \<Rightarrow> k \<in> set (String_prototype rt)
          | JNum q \<Rightarrow> k \<in> set (Number_prototype rt)
          | JBool b \<Rightarrow> k \<in> set (Boolean_prototype rt)
          | JObj ps \<Rightarrow> False
          | JNull \<Rightarrow> False))"

definition read_member :: "js_runtime \<Rightarrow> json \<Rightarrow> string \<Rightarrow> js_value" where
  "read_member rt v k =
     (case member_of v k of
        Some x \<Rightarrow> Json x
      | None \<Rightarrow> if inherited rt v k then Native else Undefined)"

fun is_truthy :: "js_value \<Rightarrow> bool" where
  "is_truthy Undefined = False"
| "is_truthy (Json x) = truthy (Some x)"
| "is_truthy Native = True"

text \<open>\<open>get_prop\<close> is \<^verbatim>\<open>v[k]\<close> with the TypeError that reading a property of \<^verbatim>\<open>null\<close> throws.\<close>

definition get_prop :: "js_runtime \<Rightarrow> json \<Rightarrow> string \<Rightarrow> exn + js_value" where
  "get_prop rt v k = (if v = JNull then Inl TypeError else Inr (read_member rt v k))"

text \<open>
  \<open>assign k v obj\<close> is \<^verbatim>\<open>obj[k] = v\<close>: an existing key keeps its place and takes the
  new value, a new key goes last. \<open>set_props\<close> assigns a list of properties in order,
  as the spread inside an object literal does.
\<close>

fun assign :: "string \<Rightarrow> json \<Rightarrow> (string \<times> json) list \<Rightarrow> (string \<times> json) list" where
  "assign k v [] = [(k, v)]"
| "assign k v (p # ps) = (if fst p = k then (k, v) # ps else p # assign k v ps)"

definition set_props :: "(string \<times> json) list \<Rightarrow> (string \<times> json) list \<Rightarrow> (string \<times> json) list" where
  "set_props ps obj = fold (\<lambda>p acc. assign (fst p) (snd p) acc) ps obj"

section \<open>The dynamic CRUD route (part_001: GET, POST, PUT, DELETE)\<close>

text \<open>
  A response is \<^verbatim>\<open>NextResponse.json(body, { status })\<close>: the status and the JSON body.
\<close>

type_synonym response = "nat \<times> json"

definition NextResponse_json :: "json \<Rightarrow> nat \<Rightarrow> response" where
  "NextResponse_json body status = (status, body)"

definition error_body :: "string \<Rightarrow> json" where
  "error_body msg = JObj [(''error'', JStr msg)]"

text \<open>
  The request: \<^verbatim>\<open>params.modelName\<close>, \<^verbatim>\<open>searchParams.get('id')\<close> (\<open>None\<close> is \<^verbatim>\<open>null\<close>) and
  the outcome of \<^verbatim>\<open>await request.json()\<close> (\<open>None\<close> when the body is not JSON and the
  call throws). The handlers read nothing else of the request: no header, no session.
\<close>

record crud_request =
  param_modelName :: string
  query_id :: "string option"
  json_body :: "json option"

text \<open>
  The handlers fix the caller by two local constants, \<^verbatim>\<open>userRole = 'Admin'\<close> and
  \<^verbatim>\<open>currentUserId = 'user-1'\<close>, each with the comment ``In real app, get from auth
  context''. The model takes that context as an argument; \<open>demo_auth\<close> is the pair of
  constants of the source, the only context a request is ever served in.
\<close>

record auth_context =
  userRole :: string
  currentUserId :: string

definition demo_auth :: auth_context where
  "demo_auth = \<lparr>userRole = ''Admin'', currentUserId = ''user-1''\<rparr>"

text \<open>
  The permission check is \<^verbatim>\<open>const permissions = modelDef.rbac[userRole] || []\<close> followed by
  \<^verbatim>\<open>permissions.includes(action)\<close>. \<open>permissions_of\<close> is the list under the own key
  \<open>role\<close> of \<open>rbac\<close>, and the empty list when \<open>rbac\<close> has no such key.
  \<open>rbac_permissions\<close> is the value of the first line: that list, unless \<open>role\<close> is no
  key of \<open>rbac\<close> but the name of a member that \<open>rbac\<close>, an object, inherits; then the
  lookup yields that member (\<open>None\<close> here), it is truthy, and the call of \<^verbatim>\<open>includes\<close>
  on it throws a TypeError.
\<close>

definition permissions_of :: "ModelDefinition \<Rightarrow> string \<Rightarrow> string list" where
  "permissions_of modelDef role = (case map_of (rbac modelDef) role of None \<Rightarrow> [] | Some ps \<Rightarrow> ps)"

definition rbac_permissions :: "js_runtime \<Rightarrow> ModelDefinition \<Rightarrow> string \<Rightarrow> string list option" where
  "rbac_permissions rt modelDef role =
     (if map_of (rbac modelDef) role = None \<and> role \<in> set (Object_prototype rt)
      then None
      else Some (permissions_of modelDef role))"

definition includes_action :: "string list option \<Rightarrow> string \<Rightarrow> exn + bool" where
  "includes_action permissions action =
     (case permissions of None \<Rightarrow> Inl TypeError | Some ps \<Rightarrow> Inr (action \<in> set ps))"

text \<open>
  \<^verbatim>\<open>getMockData\<close> draws on \<^verbatim>\<open>parseFloat\<close>, \<^verbatim>\<open>Math.random()\<close> and the clock. They are
  the environment: \<open>parseFloat\<close> gives \<open>None\<close> for a result that JSON cannot carry
  (NaN or an infinity, which the response serialises as \<^verbatim>\<open>null\<close>). Every call of
  \<^verbatim>\<open>Math.random()\<close> is inside one of two expressions, whose values the environment
  gives directly: \<open>random_percent k j\<close> is \<^verbatim>\<open>Math.floor(Math.random() * 100)\<close> and
  \<open>random_half k j\<close> is \<^verbatim>\<open>Math.random() > 0.5\<close>, and \<open>clock k j\<close> is
  \<^verbatim>\<open>new Date().toISOString()\<close>, each for field number \<open>j\<close> in the \<open>k\<close>-th call of
  \<^verbatim>\<open>getMockData\<close> of the request.
\<close>

record js_env =
  parseFloat :: "string \<Rightarrow> rat option"
  random_percent :: "nat \<Rightarrow> nat \<Rightarrow> nat"
  random_half :: "nat \<Rightarrow> nat \<Rightarrow> bool"
  clock :: "nat \<Rightarrow> nat \<Rightarrow> timestamp"

definition mock_value :: "js_env \<Rightarrow> nat \<Rightarrow> nat \<Rightarrow> FieldDefinition \<Rightarrow> json" where
  "mock_value env k j field =
     (case field_type field of
        TString \<Rightarrow> JStr (or_else (default_value field) (''Sample '' @ field_name field))
      | TNumber \<Rightarrow>
          (if truthy_str (default_value field)
           then (case parseFloat env (or_else (default_value field) []) of
                   None \<Rightarrow> JNull
                 | Some q \<Rightarrow> JNum q)
           else JNum (of_nat (random_percent env k j)))
      | TBoolean \<Rightarrow>
          (if truthy_str (default_value field)
           then JBool (default_value field = Some ''true'')
           else JBool (random_half env k j))
      | TDate \<Rightarrow> JStr (or_else (default_value field) (clock env k j))
      | TText \<Rightarrow> JStr (or_else (default_value field) (''Sample text for '' @ field_name field)))"

text \<open>
  \<^verbatim>\<open>data[field.name] = value\<close> with one of these values, none of which is an object. For
  the name \<^verbatim>\<open>__proto__\<close> the assignment goes to the accessor that \<open>data\<close> inherits, which
  ignores such a value: \<open>data\<close> stays as it was.
\<close>

definition store_member ::
  "js_runtime \<Rightarrow> string \<Rightarrow> json \<Rightarrow> (string \<times> json) list \<Rightarrow> (string \<times> json) list" where
  "store_member rt k v data =
     (if k = ''__proto__'' \<and> k \<in> set (Object_prototype rt) then data else assign k v data)"

definition getMockData ::
  "js_runtime \<Rightarrow> js_env \<Rightarrow> ModelDefinition \<Rightarrow> nat \<Rightarrow> (string \<times> json) list" where
  "getMockData rt env modelDef k =
     fold (\<lambda>jf data. store_member rt (field_name (snd jf)) (mock_value env k (fst jf) (snd jf)) data)
       (enumerate 0 (model_fields modelDef)) []"

text \<open>
  Every handler is one \<^verbatim>\<open>try\<close> block whose \<^verbatim>\<open>catch\<close> answers 500; an exception of the
  permission check or of a property read ends there.
\<close>

definition GET ::
  "js_runtime \<Rightarrow> auth_context \<Rightarrow> js_env \<Rightarrow> file_system \<Rightarrow> crud_request \<Rightarrow> response" where
  "GET rt auth env fs request =
     (case loadModel fs (param_modelName request) of
        None \<Rightarrow> NextResponse_json (error_body ''Model not found'') 404
      | Some modelDef \<Rightarrow>
          (let permissions = rbac_permissions rt modelDef (userRole auth)
           in case includes_action permissions ''read'' of
                Inl e \<Rightarrow> NextResponse_json (error_body ''Failed to fetch data'') 500
              | Inr allowed \<Rightarrow>
                  if \<not> allowed
                  then NextResponse_json (error_body ''Insufficient permissions'') 403
                  else if truthy_str (query_id request)
                  then NextResponse_json
                         (JObj (set_props (getMockData rt env modelDef 0)
                                  [(''id'', JStr (or_else (query_id request) []))])) 200
                  else NextResponse_json
                         (JArr (map (\<lambda>i. JObj (set_props (getMockData rt env modelDef i)
                                                [(''id'', JStr (''mock-'' @ show_nat (i + 1)))]))
                                  [0..<5])) 200))"

text \<open>
  The loop of \<^verbatim>\<open>POST\<close> over \<^verbatim>\<open>modelDef.fields\<close>: the first field with
  \<^verbatim>\<open>field.required && !body[field.name]\<close> ends the handler with its error; \<open>Inr None\<close>
  is the loop running to its end, \<open>Inl\<close> the exception of a property read.
\<close>

fun validate_required ::
  "js_runtime \<Rightarrow> FieldDefinition list \<Rightarrow> json \<Rightarrow> exn + FieldDefinition option" where
  "validate_required rt [] body = Inr None"
| "validate_required rt (field # rest) body =
     (if truthy_bool (required field)
      then (case get_prop rt body (field_name field) of
              Inl e \<Rightarrow> Inl e
            | Inr v \<Rightarrow> if \<not> is_truthy v then Inr (Some field) else validate_required rt rest body)
      else validate_required rt rest body)"

definition required_message :: "FieldDefinition \<Rightarrow> string" where
  "required_message field = ''Field '' @ [CHR 0x27] @ field_name field @ [CHR 0x27] @ '' is required''"

text \<open>\<^verbatim>\<open>{ id: `mock-${Date.now()}`, ...body, createdAt: ..., updatedAt: ... }\<close>\<close>

definition newRecord :: "nat \<Rightarrow> timestamp \<Rightarrow> timestamp \<Rightarrow> json \<Rightarrow> (string \<times> json) list" where
  "newRecord now_ms now1 now2 body =
     assign ''updatedAt'' (JStr now2)
       (assign ''createdAt'' (JStr now1)
          (set_props (own_props body) [(''id'', JStr (''mock-'' @ show_nat now_ms))]))"

definition POST ::
  "js_runtime \<Rightarrow> auth_context \<Rightarrow> nat \<Rightarrow> timestamp \<Rightarrow> timestamp \<Rightarrow> file_system \<Rightarrow> crud_request
     \<Rightarrow> response" where
  "POST rt auth now_ms now1 now2 fs request =
     (case json_body request of
        None \<Rightarrow> NextResponse_json (error_body ''Failed to create record'') 500
      | Some body \<Rightarrow>
          (case loadModel fs (param_modelName request) of
             None \<Rightarrow> NextResponse_json (error_body ''Model not found'') 404
           | Some modelDef \<Rightarrow>
               (let permissions = rbac_permissions rt modelDef (userRole auth)
                in case includes_action permissions ''create'' of
                     Inl e \<Rightarrow> NextResponse_json (error_body ''Failed to create record'') 500
                   | Inr allowed \<Rightarrow>
                       if \<not> allowed
                       then NextResponse_json (error_body ''Insufficient permissions'') 403
                       else (case validate_required rt (model_fields modelDef) body of
                               Inl e \<Rightarrow> NextResponse_json (error_body ''Failed to create record'') 500
                             | Inr (Some field) \<Rightarrow>
                                 NextResponse_json (error_body (required_message field)) 400
                             | Inr None \<Rightarrow>
                                 NextResponse_json (JObj (newRecord now_ms now1 now2 body)) 201))))"

text \<open>\<^verbatim>\<open>{ id, ...body, updatedAt: new Date().toISOString() }\<close>\<close>

definition updatedRecord :: "string \<Rightarrow> timestamp \<Rightarrow> json \<Rightarrow> (string \<times> json) list" where
  "updatedRecord record_id now body =
     assign ''updatedAt'' (JStr now) (set_props (own_props body) [(''id'', JStr record_id)])"

text \<open>
  \<^verbatim>\<open>PUT\<close> parses the body before it looks at the id. The ownership test is
  \<^verbatim>\<open>body[modelDef.ownerField] !== currentUserId && userRole !== 'Admin'\<close>: the left operand
  is evaluated first, and throws on a \<^verbatim>\<open>null\<close> body.
\<close>

definition PUT ::
  "js_runtime \<Rightarrow> auth_context \<Rightarrow> timestamp \<Rightarrow> file_system \<Rightarrow> crud_request \<Rightarrow> response" where
  "PUT rt auth now fs request =
     (case json_body request of
        None \<Rightarrow> NextResponse_json (error_body ''Failed to update record'') 500
      | Some body \<Rightarrow>
          if \<not> truthy_str (query_id request)
          then NextResponse_json (error_body ''Record ID is required'') 400
          else (case loadModel fs (param_modelName request) of
                  None \<Rightarrow> NextResponse_json (error_body ''Model not found'') 404
                | Some modelDef \<Rightarrow>
                    (let permissions = rbac_permissions rt modelDef (userRole auth);
                         updated = NextResponse_json
                                     (JObj (updatedRecord (or_else (query_id request) []) now body)) 200
                     in case includes_action permissions ''update'' of
                          Inl e \<Rightarrow> NextResponse_json (error_body ''Failed to update record'') 500
                        | Inr allowed \<Rightarrow>
                            if \<not> allowed
                            then NextResponse_json (error_body ''Insufficient permissions'') 403
                            else if truthy_str (ownerField modelDef)
                            then (case get_prop rt body (or_else (ownerField modelDef) []) of
                                    Inl e \<Rightarrow>
                                      NextResponse_json (error_body ''Failed to update record'') 500
                                  | Inr v \<Rightarrow>
                                      if v \<noteq> Json (JStr (currentUserId auth))
                                         \<and> userRole auth \<noteq> ''Admin''
                                      then NextResponse_json
                                             (error_body ''You can only update your own records'') 403
                                      else updated)
                            else updated)))"

definition DELETE :: "js_runtime \<Rightarrow> auth_context \<Rightarrow> file_system \<Rightarrow> crud_request \<Rightarrow> response" where
  "DELETE rt auth fs request =
     (if \<not> truthy_str (query_id request)
      then NextResponse_json (error_body ''Record ID is required'') 400
      else (case loadModel fs (param_modelName request) of
              None \<Rightarrow> NextResponse_json (error_body ''Model not found'') 404
            | Some modelDef \<Rightarrow>
                (let permissions = rbac_permissions rt modelDef (userRole auth)
                 in case includes_action permissions ''delete'' of
                      Inl e \<Rightarrow> NextResponse_json (error_body ''Failed to delete record'') 500
                    | Inr allowed \<Rightarrow>
                        if \<not> allowed
                        then NextResponse_json (error_body ''Insufficient permissions'') 403
                        else if truthy_str (ownerField modelDef) \<and> userRole auth \<noteq> ''Admin''
                        then NextResponse_json
                               (error_body ''You can only delete your own records'') 403
                        else NextResponse_json
                               (JObj [(''message'', JStr ''Record deleted successfully'')]) 200)))"

section \<open>The model registry route (src/app/api/models/route.ts: POST)\<close>

text \<open>
  The route stores a submitted definition as a database row. \<^verbatim>\<open>db.modelDefinition.create\<close>
  is the Prisma client, which is not part of the sources at hand: it is the parameter
  \<open>db_create\<close>, which for a database and the \<^verbatim>\<open>data\<close> of the call gives the database
  with the new row and that row, or throws and leaves the database as it was.
  The \<^verbatim>\<open>definition\<close> column is \<^verbatim>\<open>JSON.stringify({ fields, ownerField, rbac })\<close>, kept here
  as the JSON value that the text denotes; \<^verbatim>\<open>JSON.stringify\<close> leaves out a property
  whose value is \<^verbatim>\<open>undefined\<close>.
  The five names that the handler destructures are names of members of no built-in
  prototype, so each of these reads is the read of an own property.
\<close>

record create_data =
  data_name :: "json option"
  data_tableName :: "json option"
  data_definition :: json

definition defined_props :: "(string \<times> json option) list \<Rightarrow> (string \<times> json) list" where
  "defined_props ps = concat (map (\<lambda>p. case snd p of None \<Rightarrow> [] | Some v \<Rightarrow> [(fst p, v)]) ps)"

definition isArray :: "json option \<Rightarrow> bool" where
  "isArray v = (case v of Some (JArr xs) \<Rightarrow> True | _ \<Rightarrow> False)"

text \<open>\<^verbatim>\<open>v.length === 0\<close> for a value \<open>v\<close> that is neither \<^verbatim>\<open>undefined\<close> nor \<^verbatim>\<open>null\<close>.\<close>

definition length_is_zero :: "json option \<Rightarrow> bool" where
  "length_is_zero v = (case v of None \<Rightarrow> False | Some a \<Rightarrow> member_of a ''length'' = Some (JNum 0))"

text \<open>
  The destructuring \<^verbatim>\<open>const { name, tableName, fields, ownerField, rbac } = body\<close> throws a
  TypeError on \<^verbatim>\<open>null\<close>, which the handler's \<^verbatim>\<open>catch\<close> turns into the status 500.
\<close>

definition models_POST ::
  "('db \<Rightarrow> create_data \<Rightarrow> exn + 'db \<times> json) \<Rightarrow> 'db \<Rightarrow> json option \<Rightarrow> response \<times> 'db" where
  "models_POST db_create db request_body =
     (case request_body of
        None \<Rightarrow> (NextResponse_json (error_body ''Failed to create model'') 500, db)
      | Some body \<Rightarrow>
          if body = JNull
          then (NextResponse_json (error_body ''Failed to create model'') 500, db)
          else
            (let name_v = member_of body ''name'';
                 tableName_v = member_of body ''tableName'';
                 fields_v = member_of body ''fields'';
                 ownerField_v = member_of body ''ownerField'';
                 rbac_v = member_of body ''rbac''
             in if \<not> truthy name_v \<or> \<not> truthy fields_v \<or> \<not> isArray fields_v \<or> length_is_zero fields_v
                then (NextResponse_json (error_body ''Invalid model definition'') 400, db)
                else (case db_create db
                             \<lparr> data_name = name_v,
                               data_tableName = tableName_v,
                               data_definition =
                                 JObj (defined_props [(''fields'', fields_v),
                                                      (''ownerField'', ownerField_v),
                                                      (''rbac'', rbac_v)]) \<rparr> of
                        Inl e \<Rightarrow> (NextResponse_json (error_body ''Failed to create model'') 500, db)
                      | Inr (db', modelDefinition) \<Rightarrow> (NextResponse_json modelDefinition 201, db'))))"

section \<open>Example data\<close>

text \<open>
  The two scenario models: \<open>Product\<close> with the fields name (string, required), price
  (number, required) and isActive (boolean, default true), no owner field, and the
  permissions Admin: all four actions, Viewer: read; \<open>Task\<close> with the owner field
  \<open>ownerId\<close> and the permissions Admin: all four, Manager: create, read, update.
  \<open>Journal\<close> is like \<open>Task\<close>, with a role Author that holds all four actions.
  \<open>Vault\<close> does not list the role Admin at all, and \<open>Proto\<close> has a required field
  with the name of a method that every object inherits.
\<close>

definition Product :: ModelDefinition where
  "Product =
     \<lparr> name = ''Product'', tableName = None,
       model_fields =
         [\<lparr>field_name = ''name'', field_type = TString, required = Some True,
            default_value = None, unique = None, relation = None\<rparr>,
          \<lparr>field_name = ''price'', field_type = TNumber, required = Some True,
            default_value = None, unique = None, relation = None\<rparr>,
          \<lparr>field_name = ''isActive'', field_type = TBoolean, required = None,
            default_value = Some ''true'', unique = None, relation = None\<rparr>],
       ownerField = None,
       rbac = [(''Admin'', [''create'', ''read'', ''update'', ''delete'']), (''Viewer'', [''read''])],
       createdAt = None, updatedAt = None \<rparr>"

definition Task :: ModelDefinition where
  "Task =
     \<lparr> name = ''Task'', tableName = None,
       model_fields =
         [\<lparr>field_name = ''title'', field_type = TString, required = Some True,
            default_value = None, unique = None, relation = None\<rparr>],
       ownerField = Some ''ownerId'',
       rbac = [(''Admin'', [''create'', ''read'', ''update'', ''delete'']),
               (''Manager'', [''create'', ''read'', ''update''])],
       createdAt = None, updatedAt = None \<rparr>"

definition Journal :: ModelDefinition where
  "Journal =
     \<lparr> name = ''Journal'', tableName = None,
       model_fields =
         [\<lparr>field_name = ''entry'', field_type = TText, required = None,
            default_value = None, unique = None, relation = None\<rparr>],
       ownerField = Some ''ownerId'',
       rbac = [(''Admin'', [''create'', ''read'', ''update'', ''delete'']),
               (''Author'', [''create'', ''read'', ''update'', ''delete''])],
       createdAt = None, updatedAt = None \<rparr>"

definition Vault :: ModelDefinition where
  "Vault =
     \<lparr> name = ''Vault'', tableName = None,
       model_fields =
         [\<lparr>field_name = ''secret'', field_type = TString, required = Some True,
            default_value = None, unique = None, relation = None\<rparr>],
       ownerField = None,
       rbac = [(''Viewer'', [''read''])],
       createdAt = None, updatedAt = None \<rparr>"

definition Proto :: ModelDefinition where
  "Proto =
     \<lparr> name = ''Proto'', tableName = None,
       model_fields =
         [\<lparr>field_name = ''toString'', field_type = TString, required = Some True,
            default_value = None, unique = None, relation = None\<rparr>],
       ownerField = None,
       rbac = [(''Admin'', [''create'', ''read'', ''update'', ''delete''])],
       createdAt = None, updatedAt = None \<rparr>"

text \<open>A models directory that holds the five published definitions and one broken file.\<close>

definition published :: file_system where
  "published =
     Some [''Product.json'' \<mapsto> Serialized Product,
           ''Task.json'' \<mapsto> Serialized Task,
           ''Journal.json'' \<mapsto> Serialized Journal,
           ''Vault.json'' \<mapsto> Serialized Vault,
           ''Proto.json'' \<mapsto> Serialized Proto,
           ''Broken.json'' \<mapsto> Malformed ''{ name: '']"

definition no_updates :: ModelUpdates where
  "no_updates =
     \<lparr> upd_name = None, upd_tableName = None, upd_fields = None,
       upd_ownerField = None, upd_rbac = None \<rparr>"

definition some_env :: js_env where
  "some_env =
     \<lparr> parseFloat = (\<lambda>s. None), random_percent = (\<lambda>k j. 0), random_half = (\<lambda>k j. False),
       clock = (\<lambda>k j. ''2025-01-01T00:00:00.000Z'') \<rparr>"

text \<open>
  The string-named members of the built-in prototypes as ECMAScript 2023 (with its
  Annex B) lists them.
\<close>

definition es2023 :: js_runtime where
  "es2023 =
     \<lparr> Object_prototype =
         [''constructor'', ''__defineGetter__'', ''__defineSetter__'', ''hasOwnProperty'',
          ''__lookupGetter__'', ''__lookupSetter__'', ''isPrototypeOf'',
          ''propertyIsEnumerable'', ''toString'', ''valueOf'', ''__proto__'',
          ''toLocaleString''],
       Array_prototype =
         [''length'', ''constructor'', ''at'', ''concat'', ''copyWithin'', ''fill'', ''find'',
          ''findIndex'', ''findLast'', ''findLastIndex'', ''lastIndexOf'', ''pop'', ''push'',
          ''reverse'', ''shift'', ''unshift'', ''slice'', ''sort'', ''splice'', ''includes'',
          ''indexOf'', ''join'', ''keys'', ''entries'', ''values'', ''forEach'', ''filter'',
          ''flat'', ''flatMap'', ''map'', ''every'', ''some'', ''reduce'', ''reduceRight'',
          ''toLocaleString'', ''toString'', ''toReversed'', ''toSorted'', ''toSpliced'',
          ''with''],
       String_prototype =
         [''length'', ''constructor'', ''anchor'', ''at'', ''big'', ''blink'', ''bold'',
          ''charAt'', ''charCodeAt'', ''codePointAt'', ''concat'', ''endsWith'', ''fontcolor'',
          ''fontsize'', ''fixed'', ''includes'', ''indexOf'', ''italics'', ''lastIndexOf'',
          ''link'', ''localeCompare'', ''match'', ''matchAll'', ''normalize'', ''padEnd'',
          ''padStart'', ''repeat'', ''replace'', ''replaceAll'', ''search'', ''slice'',
          ''small'', ''split'', ''strike'', ''sub'', ''substr'', ''substring'', ''sup'',
          ''startsWith'', ''toString'', ''trim'', ''trimStart'', ''trimLeft'', ''trimEnd'',
          ''trimRight'', ''toLocaleLowerCase'', ''toLocaleUpperCase'', ''toLowerCase'',
          ''toUpperCase'', ''valueOf''],
       Number_prototype =
         [''constructor'', ''toExponential'', ''toFixed'', ''toPrecision'', ''toString'',
          ''valueOf'', ''toLocaleString''],
       Boolean_prototype = [''constructor'', ''toString'', ''valueOf''] \<rparr>"

text \<open>A database as the list of its rows, and a \<open>create\<close> that never fails.\<close>

definition list_db_create :: "json list \<Rightarrow> create_data \<Rightarrow> exn + json list \<times> json" where
  "list_db_create db data =
     (let row = JObj (defined_props [(''name'', data_name data),
                                     (''tableName'', data_tableName data),
                                     (''definition'', Some (data_definition data))])
      in Inr (db @ [row], row))"

definition laptop :: json where
  "laptop = JObj [(''name'', JStr ''Laptop''), (''price'', JStr ''999.99'')]"

text \<open>
  A definition with two fields of the same name and an action outside the four
  canonical ones.
\<close>

definition Sloppy :: ModelDefinition where
  "Sloppy =
     \<lparr> name = ''Sloppy'', tableName = None,
       model_fields =
         [\<lparr>field_name = ''code'', field_type = TString, required = None,
            default_value = None, unique = None, relation = None\<rparr>,
          \<lparr>field_name = ''code'', field_type = TNumber, required = None,
            default_value = None, unique = None, relation = None\<rparr>],
       ownerField = None,
       rbac = [(''Admin'', [''create'', ''publish''])],
       createdAt = None, updatedAt = None \<rparr>"

section \<open>Predicates of the statements\<close>

text \<open>
  A field is missing from a body when it is required and the body has no own property
  of its name, or one that is falsy. \<open>own_names\<close> says that none of the names of the
  fields is the name of a member that the body inherits; then the condition
  \<^verbatim>\<open>field.required && !body[field.name]\<close> of the loop of \<^verbatim>\<open>POST\<close> is \<open>missing_required\<close>.
\<close>

definition missing_required :: "json \<Rightarrow> FieldDefinition \<Rightarrow> bool" where
  "missing_required body field =
     (truthy_bool (required field) \<and> \<not> truthy (member_of body (field_name field)))"


definition own_names :: "js_runtime \<Rightarrow> json \<Rightarrow> FieldDefinition list \<Rightarrow> bool" where
  "own_names rt body field_list =
     list_all (\<lambda>field. \<not> inherited rt body (field_name field)) field_list"

section \<open>Auxiliary facts\<close>

lemma loadModel_no_file:
  "fs_readFile fs (modelName @ ''.json'') = Inl e \<Longrightarrow> loadModel fs modelName = None"
  by (simp add: loadModel_def)

lemma saveModel_writes:
  "entry_name (name d @ ''.json'') \<Longrightarrow>
   saveModel now1 now2 d fs =
     (Inr (), Some ((case fs of None \<Rightarrow> Map.empty | Some files \<Rightarrow> files)
                      (name d @ ''.json'' \<mapsto>
                         Serialized (d\<lparr>createdAt := Some now1, updatedAt := Some now2\<rparr>))))"
  by (cases fs)
     (simp_all add: saveModel_def ensureModelsDirectory_def fs_access_def fs_mkdir_def
        fs_writeFile_def JSON_stringify_def)


lemma listed_permissions:
  "action \<in> set (permissions_of modelDef role) \<Longrightarrow>
   rbac_permissions rt modelDef role = Some (permissions_of modelDef role)"
  by (auto simp add: rbac_permissions_def permissions_of_def)

lemma own_member_truthy:
  "\<not> inherited rt body k \<Longrightarrow> is_truthy (read_member rt body k) = truthy (member_of body k)"
  by (cases "member_of body k") (simp_all add: read_member_def)

lemma validate_required_find:
  "body \<noteq> JNull \<Longrightarrow> own_names rt body field_list \<Longrightarrow>
   validate_required rt field_list body = Inr (find (missing_required body) field_list)"
  by (induction field_list)
     (simp_all add: get_prop_def missing_required_def own_names_def own_member_truthy)

lemma load_Product: "loadModel published ''Product'' = Some Product"
  by (simp add: loadModel_def published_def fs_readFile_def entry_name_def JSON_parse_def)

lemma load_Task: "loadModel published ''Task'' = Some Task"
  by (simp add: loadModel_def published_def fs_readFile_def entry_name_def JSON_parse_def)


lemma load_Vault: "loadModel published ''Vault'' = Some Vault"
  by (simp add: loadModel_def published_def fs_readFile_def entry_name_def JSON_parse_def)

lemma load_Proto: "loadModel published ''Proto'' = Some Proto"
  by (simp add: loadModel_def published_def fs_readFile_def entry_name_def JSON_parse_def)

lemma permissions_Product_Admin:
  "permissions_of Product ''Admin'' = [''create'', ''read'', ''update'', ''delete'']"
  by (simp add: permissions_of_def Product_def)

lemma rbac_Product_Admin:
  "rbac_permissions rt Product ''Admin'' = Some [''create'', ''read'', ''update'', ''delete'']"
  by (simp add: rbac_permissions_def permissions_of_def Product_def)

lemma rbac_Vault_Admin: "rbac_permissions es2023 Vault ''Admin'' = Some []"
  by (simp add: rbac_permissions_def permissions_of_def Vault_def es2023_def)

lemma validate_Product_laptop: "validate_required rt (model_fields Product) laptop = Inr None"
  by (simp add: Product_def laptop_def get_prop_def read_member_def truthy_bool_def)

section \<open>The permission check of the CRUD route\<close>

text \<open>
  C1 (as amended). Let the model definition of the request be stored, and let the
  value of \<^verbatim>\<open>rbac[role] || []\<close> be a list without the action, as it is for a role under
  which \<open>rbac\<close> lists other actions, and for a role that \<open>rbac\<close> does not list and whose
  name is not the name of a member objects inherit (such a role has no permission at
  all). Then the handler of that action answers 403 ``Insufficient permissions'',
  whatever the JSON payload, the owner value in it and the owner field of the
  definition, provided the request gets as far as the permission check: its body parses
  as JSON (create, update) and it carries a non-empty \<open>id\<close> parameter (update, delete).
\<close>

theorem insufficient_permission_denied:
  assumes "loadModel fs (param_modelName request) = Some modelDef"
    and "rbac_permissions rt modelDef (userRole auth) = Some permissions"
  shows "(''read'' \<notin> set permissions \<longrightarrow>
            GET rt auth env fs request
              = NextResponse_json (error_body ''Insufficient permissions'') 403)
       \<and> (''create'' \<notin> set permissions \<and> json_body request \<noteq> None \<longrightarrow>
            POST rt auth now_ms now1 now2 fs request
              = NextResponse_json (error_body ''Insufficient permissions'') 403)
       \<and> (''update'' \<notin> set permissions \<and> json_body request \<noteq> None
            \<and> truthy_str (query_id request) \<longrightarrow>
            PUT rt auth now fs request
              = NextResponse_json (error_body ''Insufficient permissions'') 403)
       \<and> (''delete'' \<notin> set permissions \<and> truthy_str (query_id request) \<longrightarrow>
            DELETE rt auth fs request
              = NextResponse_json (error_body ''Insufficient permissions'') 403)"
  using assms
  by (auto simp add: GET_def POST_def PUT_def DELETE_def Let_def includes_action_def)

text \<open>
  \<open>Vault\<close> does not list Admin, the role of the source: all four handlers deny.
\<close>

theorem insufficient_permission_denied_witness:
  "loadModel published ''Vault'' = Some Vault
   \<and> rbac_permissions es2023 Vault (userRole demo_auth) = Some []
   \<and> GET es2023 demo_auth some_env published
         \<lparr>param_modelName = ''Vault'', query_id = Some ''7'', json_body = Some (JObj [])\<rparr>
       = (403, JObj [(''error'', JStr ''Insufficient permissions'')])
   \<and> POST es2023 demo_auth 17 ''2025-01-01T00:00:00.000Z'' ''2025-01-01T00:00:00.000Z'' published
         \<lparr>param_modelName = ''Vault'', query_id = Some ''7'', json_body = Some (JObj [])\<rparr>
       = (403, JObj [(''error'', JStr ''Insufficient permissions'')])
   \<and> PUT es2023 demo_auth ''2025-01-01T00:00:00.000Z'' published
         \<lparr>param_modelName = ''Vault'', query_id = Some ''7'', json_body = Some (JObj [])\<rparr>
       = (403, JObj [(''error'', JStr ''Insufficient permissions'')])
   \<and> DELETE es2023 demo_auth published
         \<lparr>param_modelName = ''Vault'', query_id = Some ''7'', json_body = Some (JObj [])\<rparr>
       = (403, JObj [(''error'', JStr ''Insufficient permissions'')])"
proof -
  have perms: "rbac_permissions es2023 Vault (userRole demo_auth) = Some []"
    by (simp add: demo_auth_def rbac_Vault_Admin)
  have load: "loadModel published
      (param_modelName \<lparr>param_modelName = ''Vault'', query_id = Some ''7'', json_body = Some (JObj [])\<rparr>)
      = Some Vault"
    by (simp add: load_Vault)
  show ?thesis
    using insufficient_permission_denied [OF load perms,
        of some_env 17 "''2025-01-01T00:00:00.000Z''" "''2025-01-01T00:00:00.000Z''"
           "''2025-01-01T00:00:00.000Z''"]
    by (simp add: perms load_Vault truthy_str_def NextResponse_json_def error_body_def)
qed

text \<open>
  C1 as stated fails. \<open>Vault\<close> grants the Admin of the source neither create nor
  update nor delete, yet a create request whose payload is not JSON is answered 500
  ``Failed to create record'', and an update or delete request without an \<open>id\<close> is
  answered 400 ``Record ID is required'': both guards come before the permission check.
\<close>

theorem insufficient_permission_counterexample:
  "loadModel published ''Vault'' = Some Vault
   \<and> rbac_permissions es2023 Vault (userRole demo_auth) = Some []
   \<and> POST es2023 demo_auth 17 ''2025-01-01T00:00:00.000Z'' ''2025-01-01T00:00:00.000Z'' published
         \<lparr>param_modelName = ''Vault'', query_id = None, json_body = None\<rparr>
       = (500, JObj [(''error'', JStr ''Failed to create record'')])
   \<and> PUT es2023 demo_auth ''2025-01-01T00:00:00.000Z'' published
         \<lparr>param_modelName = ''Vault'', query_id = None, json_body = Some (JObj [])\<rparr>
       = (400, JObj [(''error'', JStr ''Record ID is required'')])
   \<and> DELETE es2023 demo_auth published
         \<lparr>param_modelName = ''Vault'', query_id = None, json_body = None\<rparr>
       = (400, JObj [(''error'', JStr ''Record ID is required'')])"
  by (simp add: load_Vault rbac_Vault_Admin demo_auth_def POST_def PUT_def DELETE_def
        truthy_str_def NextResponse_json_def error_body_def)

section \<open>The ownership check of the CRUD route\<close>


text \<open>
  The branches for another role, which the constant role of the source never reaches:
  were the role of the caller anything but Admin, \<^verbatim>\<open>DELETE\<close> would refuse every request
  on a definition with an owner field, the owner's own included, and \<^verbatim>\<open>PUT\<close> would
  compare the caller's id with the owner value that the payload of the request
  itself states.
\<close>

lemma DELETE_branch_of_other_roles:
  assumes "loadModel fs (param_modelName request) = Some modelDef"
    and "truthy_str (ownerField modelDef)"
    and "userRole auth \<noteq> ''Admin''"
    and "''delete'' \<in> set (permissions_of modelDef (userRole auth))"
    and "truthy_str (query_id request)"
  shows "DELETE rt auth fs request
           = NextResponse_json (error_body ''You can only delete your own records'') 403"
  using assms listed_permissions [OF assms(4), of rt]
  by (simp add: DELETE_def Let_def includes_action_def)

lemma PUT_branch_of_other_roles:
  assumes "loadModel fs (param_modelName request) = Some modelDef"
    and "ownerField modelDef = Some f" and "f \<noteq> []"
    and "userRole auth \<noteq> ''Admin''"
    and "''update'' \<in> set (permissions_of modelDef (userRole auth))"
    and "query_id request = Some rid" and "rid \<noteq> []"
    and "json_body request = Some body" and "body \<noteq> JNull"
  shows "PUT rt auth now fs request =
     (if read_member rt body f = Json (JStr (currentUserId auth))
      then NextResponse_json (JObj (updatedRecord rid now body)) 200
      else NextResponse_json (error_body ''You can only update your own records'') 403)"
  using assms listed_permissions [OF assms(5), of rt]
  by (simp add: PUT_def Let_def includes_action_def truthy_str_def or_else_def get_prop_def)

text \<open>
  C3. For a definition with an owner field, an Admin whose permissions hold update is
  allowed to update whatever owner value the payload carries (any JSON payload other than
  \<^verbatim>\<open>null\<close>, so an owner value absent, equal to or different from the Admin's id), and
  an Admin whose permissions hold delete is allowed to delete. The request carries a
  non-empty \<open>id\<close>, without which neither handler looks at permissions at all.
  And whatever the request, the stored definition and the payload, an Admin never gets
  one of the two ownership denials.
\<close>

theorem admin_bypasses_ownership:
  assumes "userRole auth = ''Admin''"
  shows "(loadModel fs (param_modelName request) = Some modelDef
            \<and> truthy_str (ownerField modelDef)
            \<and> query_id request = Some rid \<and> rid \<noteq> []
            \<and> ''update'' \<in> set (permissions_of modelDef ''Admin'')
            \<and> json_body request = Some body \<and> body \<noteq> JNull \<longrightarrow>
            PUT rt auth now fs request = NextResponse_json (JObj (updatedRecord rid now body)) 200)
       \<and> (loadModel fs (param_modelName request) = Some modelDef
            \<and> truthy_str (ownerField modelDef)
            \<and> query_id request = Some rid \<and> rid \<noteq> []
            \<and> ''delete'' \<in> set (permissions_of modelDef ''Admin'') \<longrightarrow>
            DELETE rt auth fs request
              = NextResponse_json (JObj [(''message'', JStr ''Record deleted successfully'')]) 200)
       \<and> PUT rt auth now fs request
            \<noteq> NextResponse_json (error_body ''You can only update your own records'') 403
       \<and> DELETE rt auth fs request
            \<noteq> NextResponse_json (error_body ''You can only delete your own records'') 403"
proof -
  have allowed_update:
    "PUT rt auth now fs request = NextResponse_json (JObj (updatedRecord rid now body)) 200"
    if "loadModel fs (param_modelName request) = Some modelDef"
      "truthy_str (ownerField modelDef)" "query_id request = Some rid" "rid \<noteq> []"
      "''update'' \<in> set (permissions_of modelDef ''Admin'')"
      "json_body request = Some body" "body \<noteq> JNull"
    using that assms listed_permissions [OF that(5), of rt]
    by (simp add: PUT_def Let_def includes_action_def truthy_str_def or_else_def get_prop_def)
  have allowed_delete:
    "DELETE rt auth fs request
       = NextResponse_json (JObj [(''message'', JStr ''Record deleted successfully'')]) 200"
    if "loadModel fs (param_modelName request) = Some modelDef"
      "truthy_str (ownerField modelDef)" "query_id request = Some rid" "rid \<noteq> []"
      "''delete'' \<in> set (permissions_of modelDef ''Admin'')"
    using that assms listed_permissions [OF that(5), of rt]
    by (simp add: DELETE_def Let_def includes_action_def truthy_str_def)
  have never_update:
    "PUT rt auth now fs request
       \<noteq> NextResponse_json (error_body ''You can only update your own records'') 403"
    using assms
    by (simp add: PUT_def Let_def NextResponse_json_def error_body_def
          split: option.splits sum.splits)
  have never_delete:
    "DELETE rt auth fs request
       \<noteq> NextResponse_json (error_body ''You can only delete your own records'') 403"
    using assms
    by (simp add: DELETE_def Let_def NextResponse_json_def error_body_def
          split: option.splits sum.splits)
  show ?thesis
    using allowed_update allowed_delete never_update never_delete by blast
qed

text \<open>
  The Admin of the source, \<open>user-1\<close>, updates and deletes a task owned by \<open>u2\<close>.
\<close>

theorem admin_bypasses_ownership_witness:
  "userRole demo_auth = ''Admin''
   \<and> loadModel published ''Task'' = Some Task
   \<and> truthy_str (ownerField Task)
   \<and> ''7'' \<noteq> []
   \<and> ''update'' \<in> set (permissions_of Task ''Admin'')
   \<and> ''delete'' \<in> set (permissions_of Task ''Admin'')
   \<and> JObj [(''ownerId'', JStr ''u2'')] \<noteq> JNull
   \<and> currentUserId demo_auth \<noteq> ''u2''
   \<and> PUT es2023 demo_auth ''2025-01-01T00:00:00.000Z'' published
        \<lparr>param_modelName = ''Task'', query_id = Some ''7'',
          json_body = Some (JObj [(''ownerId'', JStr ''u2'')])\<rparr>
      = (200, JObj [(''id'', JStr ''7''), (''ownerId'', JStr ''u2''),
                   (''updatedAt'', JStr ''2025-01-01T00:00:00.000Z'')])
   \<and> DELETE es2023 demo_auth published
        \<lparr>param_modelName = ''Task'', query_id = Some ''7'',
          json_body = Some (JObj [(''ownerId'', JStr ''u2'')])\<rparr>
      = (200, JObj [(''message'', JStr ''Record deleted successfully'')])"
proof -
  have admin: "userRole demo_auth = ''Admin''"
    by (simp add: demo_auth_def)
  have perms: "''update'' \<in> set (permissions_of Task ''Admin'')"
      "''delete'' \<in> set (permissions_of Task ''Admin'')"
    by (simp_all add: permissions_of_def Task_def)
  have owner: "truthy_str (ownerField Task)"
    by (simp add: Task_def truthy_str_def)
  have other: "currentUserId demo_auth \<noteq> ''u2''"
    by (simp add: demo_auth_def)
  have updated: "updatedRecord ''7'' ''2025-01-01T00:00:00.000Z'' (JObj [(''ownerId'', JStr ''u2'')])
      = [(''id'', JStr ''7''), (''ownerId'', JStr ''u2''),
         (''updatedAt'', JStr ''2025-01-01T00:00:00.000Z'')]"
    by (simp add: updatedRecord_def set_props_def)
  show ?thesis
    using admin perms owner other
      admin_bypasses_ownership [OF admin, of published
        "\<lparr>param_modelName = ''Task'', query_id = Some ''7'',
          json_body = Some (JObj [(''ownerId'', JStr ''u2'')])\<rparr>" Task "''7''"
        "JObj [(''ownerId'', JStr ''u2'')]" es2023 "''2025-01-01T00:00:00.000Z''"]
    by (simp add: load_Task NextResponse_json_def updated)
qed

section \<open>Validation of the payload\<close>

text \<open>
  C4 (as amended). For the \<open>Product\<close> scenario, a create request by an Admin with the
  payload \<^verbatim>\<open>{name: "Laptop", price: "999.99"}\<close> succeeds with the status 201, and the
  record of the answer is the payload as it came, between a generated \<open>id\<close> and the two
  timestamps: \<open>price\<close> is still the string \<^verbatim>\<open>"999.99"\<close>, and there is no \<open>isActive\<close>.
\<close>

theorem product_create_echoes_payload:
  assumes "loadModel fs ''Product'' = Some Product"
    and "userRole auth = ''Admin''"
  shows "POST rt auth now_ms now1 now2 fs
           \<lparr>param_modelName = ''Product'', query_id = q, json_body = Some laptop\<rparr>
         = NextResponse_json
             (JObj [(''id'', JStr (''mock-'' @ show_nat now_ms)),
                    (''name'', JStr ''Laptop''),
                    (''price'', JStr ''999.99''),
                    (''createdAt'', JStr now1),
                    (''updatedAt'', JStr now2)]) 201"
proof -
  have created: "newRecord now_ms now1 now2 laptop
      = [(''id'', JStr (''mock-'' @ show_nat now_ms)), (''name'', JStr ''Laptop''),
         (''price'', JStr ''999.99''), (''createdAt'', JStr now1), (''updatedAt'', JStr now2)]"
    by (simp add: newRecord_def set_props_def laptop_def)
  show ?thesis
    using assms
    by (simp add: POST_def Let_def rbac_Product_Admin includes_action_def
          validate_Product_laptop created)
qed

theorem product_create_echoes_payload_witness:
  "loadModel published ''Product'' = Some Product
   \<and> userRole demo_auth = ''Admin''
   \<and> POST es2023 demo_auth 1700000000000 ''2023-11-14T22:13:20.000Z'' ''2023-11-14T22:13:20.000Z''
        published \<lparr>param_modelName = ''Product'', query_id = None, json_body = Some laptop\<rparr>
      = (201, JObj [(''id'', JStr ''mock-1700000000000''),
                    (''name'', JStr ''Laptop''),
                    (''price'', JStr ''999.99''),
                    (''createdAt'', JStr ''2023-11-14T22:13:20.000Z''),
                    (''updatedAt'', JStr ''2023-11-14T22:13:20.000Z'')])"
proof -
  have digits: "show_nat 1700000000000 = ''1700000000000''"
    by (simp add: show_nat.simps digit_char_def)
  have admin: "userRole demo_auth = ''Admin''"
    by (simp add: demo_auth_def)
  show ?thesis
    using product_create_echoes_payload [OF load_Product admin, of es2023 1700000000000
        "''2023-11-14T22:13:20.000Z''" "''2023-11-14T22:13:20.000Z''" None]
    by (simp add: load_Product admin digits NextResponse_json_def)
qed

text \<open>
  C4 as stated fails: in the record that the create request of the scenario returns,
  \<open>price\<close> is the string \<^verbatim>\<open>"999.99"\<close> and not the number 999.99, and \<open>isActive\<close> is
  absent, the declared default notwithstanding.
\<close>

theorem product_create_counterexample:
  "member_of (snd (POST es2023 demo_auth 17 ''2025-01-01T00:00:00.000Z'' ''2025-01-01T00:00:00.000Z''
        published \<lparr>param_modelName = ''Product'', query_id = None, json_body = Some laptop\<rparr>))
        ''price''
     = Some (JStr ''999.99'')
   \<and> member_of (snd (POST es2023 demo_auth 17 ''2025-01-01T00:00:00.000Z'' ''2025-01-01T00:00:00.000Z''
        published \<lparr>param_modelName = ''Product'', query_id = None, json_body = Some laptop\<rparr>))
        ''price''
     \<noteq> Some (JNum (99999 / 100))
   \<and> member_of (snd (POST es2023 demo_auth 17 ''2025-01-01T00:00:00.000Z'' ''2025-01-01T00:00:00.000Z''
        published \<lparr>param_modelName = ''Product'', query_id = None, json_body = Some laptop\<rparr>))
        ''isActive''
     = None"
proof -
  have created: "newRecord 17 ''2025-01-01T00:00:00.000Z'' ''2025-01-01T00:00:00.000Z'' laptop
      = [(''id'', JStr (''mock-'' @ show_nat 17)), (''name'', JStr ''Laptop''),
         (''price'', JStr ''999.99''), (''createdAt'', JStr ''2025-01-01T00:00:00.000Z''),
         (''updatedAt'', JStr ''2025-01-01T00:00:00.000Z'')]"
    by (simp add: newRecord_def set_props_def laptop_def)
  show ?thesis
    by (simp add: POST_def Let_def load_Product demo_auth_def rbac_Product_Admin
          includes_action_def validate_Product_laptop created NextResponse_json_def)
qed

text \<open>
  C5. The test of the loop of \<^verbatim>\<open>POST\<close> is \<^verbatim>\<open>!body[field.name]\<close>, and the read finds
  inherited members too. \<open>Proto\<close> requires a field \<open>toString\<close>, which has no default;
  the payload \<^verbatim>\<open>{}\<close> has no such property of its own, that is, it omits the field; and
  the create request is accepted with the status 201, the record holding no
  \<open>toString\<close>.
\<close>

theorem required_field_omitted_yet_created:
  "loadModel published ''Proto'' = Some Proto
   \<and> length (model_fields Proto) = 1
   \<and> field_name (model_fields Proto ! 0) = ''toString''
   \<and> required (model_fields Proto ! 0) = Some True
   \<and> default_value (model_fields Proto ! 0) = None
   \<and> member_of (JObj []) ''toString'' = None
   \<and> POST es2023 demo_auth 17 ''2025-01-01T00:00:00.000Z'' ''2025-01-01T00:00:00.001Z'' published
        \<lparr>param_modelName = ''Proto'', query_id = None, json_body = Some (JObj [])\<rparr>
      = (201, JObj [(''id'', JStr ''mock-17''),
                    (''createdAt'', JStr ''2025-01-01T00:00:00.000Z''),
                    (''updatedAt'', JStr ''2025-01-01T00:00:00.001Z'')])"
proof -
  have perms: "rbac_permissions es2023 Proto ''Admin''
      = Some [''create'', ''read'', ''update'', ''delete'']"
    by (simp add: rbac_permissions_def permissions_of_def Proto_def)
  have fields: "length (model_fields Proto) = 1"
      "field_name (model_fields Proto ! 0) = ''toString''"
      "required (model_fields Proto ! 0) = Some True"
      "default_value (model_fields Proto ! 0) = None"
    by (simp_all add: Proto_def)
  have loop: "validate_required es2023 (model_fields Proto) (JObj []) = Inr None"
    by (simp add: Proto_def get_prop_def read_member_def inherited_def es2023_def truthy_bool_def)
  have digits: "show_nat 17 = ''17''"
    by (simp add: show_nat.simps digit_char_def)
  have created: "newRecord 17 ''2025-01-01T00:00:00.000Z'' ''2025-01-01T00:00:00.001Z'' (JObj [])
      = [(''id'', JStr ''mock-17''), (''createdAt'', JStr ''2025-01-01T00:00:00.000Z''),
         (''updatedAt'', JStr ''2025-01-01T00:00:00.001Z'')]"
    by (simp add: newRecord_def set_props_def digits)
  show ?thesis
    using fields
    by (simp add: load_Proto perms demo_auth_def POST_def Let_def includes_action_def loop created
          NextResponse_json_def)
qed

text \<open>
  Apart from such names the loop does what its comment says: when no field name is the
  name of a member that the payload inherits, a payload that omits a required field is
  rejected, with the message for a required field that it lacks.
\<close>

lemma find_missing_required:
  "field \<in> set field_list \<Longrightarrow> missing_required body field \<Longrightarrow>
   \<exists>g. find (missing_required body) field_list = Some g \<and> g \<in> set field_list
       \<and> missing_required body g"
  by (induction field_list) auto

lemma required_enforced_for_own_names:
  assumes "loadModel fs (param_modelName request) = Some modelDef"
    and "''create'' \<in> set (permissions_of modelDef (userRole auth))"
    and "json_body request = Some body" and "body \<noteq> JNull"
    and "own_names rt body (model_fields modelDef)"
    and "field \<in> set (model_fields modelDef)"
    and "truthy_bool (required field)"
    and "member_of body (field_name field) = None"
  shows "\<exists>g. g \<in> set (model_fields modelDef) \<and> missing_required body g
           \<and> POST rt auth now_ms now1 now2 fs request
               = NextResponse_json (error_body (required_message g)) 400"
proof -
  from assms(7,8) have "missing_required body field"
    by (simp add: missing_required_def)
  from find_missing_required [OF assms(6) this]
  obtain g where g: "find (missing_required body) (model_fields modelDef) = Some g"
      "g \<in> set (model_fields modelDef)" "missing_required body g"
    by blast
  have "POST rt auth now_ms now1 now2 fs request
      = NextResponse_json (error_body (required_message g)) 400"
    using assms(1-5) g(1) listed_permissions [OF assms(2), of rt]
    by (simp add: POST_def Let_def includes_action_def validate_required_find)
  with g(2,3) show ?thesis
    by blast
qed

text \<open>
  C6 (as amended). Take a create request by a caller who may create, with a JSON payload
  other than \<^verbatim>\<open>null\<close>, for a definition none of whose field names is the name of a
  member that the payload inherits. It is answered with one error only: the message for
  the first field, in the order of the definition, that is required and whose value in
  the payload is missing or falsy. The fields after it are not looked at. With no such
  field the record is created.
\<close>

theorem validation_stops_at_first_missing:
  assumes "loadModel fs (param_modelName request) = Some modelDef"
    and "''create'' \<in> set (permissions_of modelDef (userRole auth))"
    and "json_body request = Some body" and "body \<noteq> JNull"
    and "own_names rt body (model_fields modelDef)"
  shows "POST rt auth now_ms now1 now2 fs request =
     (case find (missing_required body) (model_fields modelDef) of
        Some field \<Rightarrow> NextResponse_json (error_body (required_message field)) 400
      | None \<Rightarrow> NextResponse_json (JObj (newRecord now_ms now1 now2 body)) 201)"
  using assms listed_permissions [OF assms(2), of rt]
  by (simp add: POST_def Let_def includes_action_def validate_required_find split: option.splits)

theorem validation_stops_at_first_missing_witness:
  "loadModel published ''Product'' = Some Product
   \<and> ''create'' \<in> set (permissions_of Product (userRole demo_auth))
   \<and> JObj [(''price'', JNum 0)] \<noteq> JNull
   \<and> own_names es2023 (JObj [(''price'', JNum 0)]) (model_fields Product)
   \<and> POST es2023 demo_auth 17 ''2025-01-01T00:00:00.000Z'' ''2025-01-01T00:00:00.001Z'' published
        \<lparr>param_modelName = ''Product'', query_id = None, json_body = Some (JObj [(''price'', JNum 0)])\<rparr>
      = (400, JObj [(''error'', JStr (''Field '' @ [CHR 0x27] @ ''name'' @ [CHR 0x27] @ '' is required''))])"
proof -
  let ?body = "JObj [(''price'', JNum 0)]"
  let ?req = "\<lparr>param_modelName = ''Product'', query_id = None, json_body = Some ?body\<rparr>"
  have load: "loadModel published (param_modelName ?req) = Some Product"
    by (simp add: load_Product)
  have perms: "''create'' \<in> set (permissions_of Product (userRole demo_auth))"
    by (simp add: permissions_Product_Admin demo_auth_def)
  have body: "json_body ?req = Some ?body"
    by simp
  have nonnull: "?body \<noteq> JNull"
    by simp
  have own: "own_names es2023 ?body (model_fields Product)"
    by (simp add: own_names_def inherited_def Product_def es2023_def)
  have first: "find (missing_required ?body) (model_fields Product)
      = Some \<lparr>field_name = ''name'', field_type = TString, required = Some True,
                default_value = None, unique = None, relation = None\<rparr>"
    by (simp add: Product_def missing_required_def truthy_bool_def)
  show ?thesis
    using perms own validation_stops_at_first_missing [OF load perms body nonnull own,
        of 17 "''2025-01-01T00:00:00.000Z''" "''2025-01-01T00:00:00.001Z''"]
    by (simp add: first load_Product required_message_def NextResponse_json_def error_body_def)
qed

text \<open>
  C6 as stated fails. The empty payload lacks both required fields of \<open>Product\<close>,
  \<open>name\<close> and \<open>price\<close>; the answer names \<open>name\<close> alone.
\<close>

theorem validation_first_error_counterexample:
  "missing_required (JObj []) (model_fields Product ! 0)
   \<and> missing_required (JObj []) (model_fields Product ! 1)
   \<and> field_name (model_fields Product ! 0) = ''name''
   \<and> field_name (model_fields Product ! 1) = ''price''
   \<and> POST es2023 demo_auth 17 ''2025-01-01T00:00:00.000Z'' ''2025-01-01T00:00:00.001Z'' published
        \<lparr>param_modelName = ''Product'', query_id = None, json_body = Some (JObj [])\<rparr>
      = (400, JObj [(''error'', JStr (''Field '' @ [CHR 0x27] @ ''name'' @ [CHR 0x27] @ '' is required''))])"
proof -
  have fields: "missing_required (JObj []) (model_fields Product ! 0)"
      "missing_required (JObj []) (model_fields Product ! 1)"
      "field_name (model_fields Product ! 0) = ''name''"
      "field_name (model_fields Product ! 1) = ''price''"
    by (simp_all add: Product_def missing_required_def truthy_bool_def)
  have loop: "validate_required es2023 (model_fields Product) (JObj [])
      = Inr (Some \<lparr>field_name = ''name'', field_type = TString, required = Some True,
                      default_value = None, unique = None, relation = None\<rparr>)"
    by (simp add: Product_def get_prop_def read_member_def inherited_def es2023_def truthy_bool_def)
  have response: "POST es2023 demo_auth 17 ''2025-01-01T00:00:00.000Z'' ''2025-01-01T00:00:00.001Z''
        published \<lparr>param_modelName = ''Product'', query_id = None, json_body = Some (JObj [])\<rparr>
      = (400, JObj [(''error'', JStr (''Field '' @ [CHR 0x27] @ ''name'' @ [CHR 0x27] @ '' is required''))])"
    by (simp add: POST_def Let_def load_Product rbac_Product_Admin includes_action_def demo_auth_def
          loop required_message_def NextResponse_json_def error_body_def)
  show ?thesis
    using fields response by simp
qed

section \<open>Saving and loading definitions\<close>




text \<open>
  C8 (as amended). For a model name whose stored document exists but does not parse,
  \<^verbatim>\<open>loadModel\<close> returns \<^verbatim>\<open>null\<close>, which is also what it returns when no document of that
  name exists.
\<close>

theorem load_corrupt_is_null:
  assumes "fs_readFile fs (modelName @ ''.json'') = Inr (Malformed text)"
  shows "loadModel fs modelName = None"
  using assms by (simp add: loadModel_def JSON_parse_def)

theorem load_corrupt_is_null_witness:
  "fs_readFile published (''Broken'' @ ''.json'') = Inr (Malformed ''{ name: '')
   \<and> loadModel published ''Broken'' = None"
proof -
  have corrupt: "fs_readFile published (''Broken'' @ ''.json'') = Inr (Malformed ''{ name: '')"
    by (simp add: fs_readFile_def entry_name_def published_def)
  show ?thesis
    using corrupt load_corrupt_is_null [OF corrupt] by simp
qed

text \<open>
  C8 as stated fails: the file \<open>Broken.json\<close> exists and does not parse, no file
  \<open>Ghost.json\<close> exists, and \<^verbatim>\<open>loadModel\<close> gives the same result for both names.
\<close>

theorem corrupt_vs_missing_counterexample:
  "fs_readFile published ''Broken.json'' = Inr (Malformed ''{ name: '')
   \<and> fs_readFile published ''Ghost.json'' = Inl ENOENT
   \<and> loadModel published ''Broken'' = loadModel published ''Ghost''"
  by (simp add: loadModel_def fs_readFile_def entry_name_def published_def JSON_parse_def)

text \<open>
  C9 (as amended). The route that accepts a submitted definition checks, before it
  stores anything, that \<open>name\<close> is truthy and that \<open>fields\<close> is a non-empty array, and
  nothing else. A submission (a JSON value other than \<^verbatim>\<open>null\<close>) that fails this check is
  answered 400 ``Invalid model definition'' and the database stays as it was; every
  other submission is handed to the database with its \<open>fields\<close>, \<open>ownerField\<close> and
  \<open>rbac\<close> as they came. \<^verbatim>\<open>saveModel\<close> checks nothing.
\<close>

theorem models_POST_checks:
  assumes "body \<noteq> JNull"
  shows "models_POST db_create db (Some body) =
     (if truthy (member_of body ''name'')
         \<and> (case member_of body ''fields'' of Some (JArr xs) \<Rightarrow> xs \<noteq> [] | _ \<Rightarrow> False)
      then (case db_create db
                   \<lparr> data_name = member_of body ''name'',
                     data_tableName = member_of body ''tableName'',
                     data_definition =
                       JObj (defined_props [(''fields'', member_of body ''fields''),
                                            (''ownerField'', member_of body ''ownerField''),
                                            (''rbac'', member_of body ''rbac'')]) \<rparr> of
              Inl e \<Rightarrow> (NextResponse_json (error_body ''Failed to create model'') 500, db)
            | Inr (db', modelDefinition) \<Rightarrow> (NextResponse_json modelDefinition 201, db'))
      else (NextResponse_json (error_body ''Invalid model definition'') 400, db))"
  using assms
  by (auto simp add: models_POST_def Let_def isArray_def length_is_zero_def
        split: option.splits json.splits)

text \<open>
  A submission with an empty list of fields is refused; one with two fields of the same
  name and an unknown action is stored.
\<close>

theorem models_POST_checks_witness:
  "JObj [(''name'', JStr ''X''), (''fields'', JArr [])] \<noteq> JNull
   \<and> models_POST list_db_create [] (Some (JObj [(''name'', JStr ''X''), (''fields'', JArr [])]))
       = ((400, JObj [(''error'', JStr ''Invalid model definition'')]), [])
   \<and> JObj [(''name'', JStr ''X''),
            (''fields'', JArr [JObj [(''name'', JStr ''a'')], JObj [(''name'', JStr ''a'')]]),
            (''rbac'', JObj [(''Admin'', JArr [JStr ''fly''])])] \<noteq> JNull
   \<and> fst (fst (models_POST list_db_create []
         (Some (JObj [(''name'', JStr ''X''),
            (''fields'', JArr [JObj [(''name'', JStr ''a'')], JObj [(''name'', JStr ''a'')]]),
            (''rbac'', JObj [(''Admin'', JArr [JStr ''fly''])])])))) = 201"
  using models_POST_checks [of "JObj [(''name'', JStr ''X''), (''fields'', JArr [])]" list_db_create "[]"]
    models_POST_checks [of "JObj [(''name'', JStr ''X''),
            (''fields'', JArr [JObj [(''name'', JStr ''a'')], JObj [(''name'', JStr ''a'')]]),
            (''rbac'', JObj [(''Admin'', JArr [JStr ''fly''])])]" list_db_create "[]"]
  by (simp add: NextResponse_json_def error_body_def list_db_create_def Let_def)

text \<open>
  C9 as stated fails. \<open>Sloppy\<close> has two fields of the same name and grants an action
  that is none of the four; \<^verbatim>\<open>saveModel\<close> writes it, and writes it again with no field
  at all, and \<^verbatim>\<open>loadModel\<close> returns what was written.
\<close>

theorem save_unchecked_counterexample:
  "\<not> distinct (map field_name (model_fields Sloppy))
   \<and> \<not> set (permissions_of Sloppy ''Admin'') \<subseteq> {''create'', ''read'', ''update'', ''delete''}
   \<and> fst (saveModel ''2025-01-01T00:00:00.000Z'' ''2025-01-01T00:00:00.000Z'' Sloppy published) = Inr ()
   \<and> loadModel (snd (saveModel ''2025-01-01T00:00:00.000Z'' ''2025-01-01T00:00:00.000Z'' Sloppy published))
        ''Sloppy''
      = Some (Sloppy\<lparr>createdAt := Some ''2025-01-01T00:00:00.000Z'',
                      updatedAt := Some ''2025-01-01T00:00:00.000Z''\<rparr>)
   \<and> fst (saveModel ''2025-01-01T00:00:00.000Z'' ''2025-01-01T00:00:00.000Z''
             (Sloppy\<lparr>model_fields := []\<rparr>) published) = Inr ()
   \<and> loadModel (snd (saveModel ''2025-01-01T00:00:00.000Z'' ''2025-01-01T00:00:00.000Z''
             (Sloppy\<lparr>model_fields := []\<rparr>) published))
        ''Sloppy''
      = Some (Sloppy\<lparr>model_fields := [], createdAt := Some ''2025-01-01T00:00:00.000Z'',
                      updatedAt := Some ''2025-01-01T00:00:00.000Z''\<rparr>)"
proof -
  have called: "name Sloppy = ''Sloppy''"
    by (simp add: Sloppy_def)
  have plain: "entry_name (name Sloppy @ ''.json'')"
      "entry_name (name (Sloppy\<lparr>model_fields := []\<rparr>) @ ''.json'')"
    by (simp_all add: entry_name_def called)
  have invariants: "\<not> distinct (map field_name (model_fields Sloppy))"
      "\<not> set (permissions_of Sloppy ''Admin'') \<subseteq> {''create'', ''read'', ''update'', ''delete''}"
    by (simp_all add: Sloppy_def permissions_of_def)
  show ?thesis
    using invariants
    by (simp add: saveModel_writes [OF plain(1)] saveModel_writes [OF plain(2)] called
          loadModel_def fs_readFile_def entry_name_def JSON_parse_def)
qed

text \<open>
  C10. For a model name with no stored definition (no file \<open>modelName.json\<close>, or no
  models directory at all), \<^verbatim>\<open>updateModel\<close> returns \<^verbatim>\<open>false\<close> and the file system
  after the call is the file system before it, whatever the updates and the clock:
  nothing is created or written, and the call returns a value (no exception leaves
  the catch-all).
\<close>

theorem updateModel_missing_returns_false_unchanged:
  assumes "fs_readFile fs (modelName @ ''.json'') = Inl ENOENT"
  shows "updateModel now0 now1 now2 fs modelName updates = (False, fs)"
  using assms by (simp add: updateModel_def loadModel_no_file)

theorem updateModel_missing_returns_false_unchanged_witness:
  "fs_readFile published (''Ghost'' @ ''.json'') = Inl ENOENT
   \<and> updateModel ''2025-01-01T00:00:00.000Z'' ''2025-01-01T00:00:00.001Z''
         ''2025-01-01T00:00:00.001Z'' published ''Ghost''
         (no_updates\<lparr>upd_tableName := Some (Some ''ghosts'')\<rparr>)
       = (False, published)"
proof -
  have missing: "fs_readFile published (''Ghost'' @ ''.json'') = Inl ENOENT"
    by (simp add: fs_readFile_def entry_name_def published_def)
  show ?thesis
    using missing updateModel_missing_returns_false_unchanged [OF missing] by simp
qed

end
